theory Spec2Isabelle
  imports Main
begin

section \<open>JavaScript values and label records\<close>

text \<open>
  The values that reach the middleware at run time: label values of a
  \<open>MetricRecord\<close> (declared \<open>string | number\<close>, but types are erased) and the
  values a rejected promise may carry, which JavaScript does not restrict to
  \<open>Error\<close> objects. Numbers are integers or \<open>NaN\<close>; \<open>JError m\<close> is an
  \<open>Error\<close> object with message \<open>m\<close>; \<open>JBuiltin n\<close> is the built-in object or
  function \<open>n\<close> of the runtime, which a property read reaches through the prototype
  chain.
\<close>

datatype jsval =
    JUndefined
  | JNull
  | JBool bool
  | JNum int
  | JNaN
  | JStr string
  | JError string
  | JBuiltin string

text \<open>The truthiness test of \<open>if (v)\<close>.\<close>

fun truthy :: "jsval \<Rightarrow> bool" where
  "truthy JUndefined = False"
| "truthy JNull = False"
| "truthy (JBool b) = b"
| "truthy (JNum n) = (n \<noteq> 0)"
| "truthy JNaN = False"
| "truthy (JStr s) = (s \<noteq> [])"
| "truthy (JError m) = True"
| "truthy (JBuiltin n) = True"

text \<open>
  \<open>MetricRecord\<close>: an object with string keys, as the list of its own properties in
  insertion order. It is a plain object, as an object literal or parsed JSON gives: its
  prototype is \<open>Object.prototype\<close>. Label names are identifiers (the metrics library
  accepts no other name when a metric is declared), so the properties are enumerated in
  insertion order.
\<close>

type_synonym MetricRecord = "(string \<times> jsval) list"

text \<open>
  The properties every plain object inherits from \<open>Object.prototype\<close>: the constructor,
  the methods, and the accessor \<open>__proto__\<close>, which reads as the prototype itself.
\<close>

definition Object_prototype :: MetricRecord where
  "Object_prototype =
     [(''constructor'', JBuiltin ''Object''),
      (''__defineGetter__'', JBuiltin ''Object.prototype.__defineGetter__''),
      (''__defineSetter__'', JBuiltin ''Object.prototype.__defineSetter__''),
      (''hasOwnProperty'', JBuiltin ''Object.prototype.hasOwnProperty''),
      (''__lookupGetter__'', JBuiltin ''Object.prototype.__lookupGetter__''),
      (''__lookupSetter__'', JBuiltin ''Object.prototype.__lookupSetter__''),
      (''isPrototypeOf'', JBuiltin ''Object.prototype.isPrototypeOf''),
      (''propertyIsEnumerable'', JBuiltin ''Object.prototype.propertyIsEnumerable''),
      (''toString'', JBuiltin ''Object.prototype.toString''),
      (''valueOf'', JBuiltin ''Object.prototype.valueOf''),
      (''__proto__'', JBuiltin ''Object.prototype''),
      (''toLocaleString'', JBuiltin ''Object.prototype.toLocaleString'')]"

text \<open>
  \<open>obj[key]\<close>: the value of the own property; when there is none, of the property
  inherited from \<open>Object.prototype\<close>; \<open>undefined\<close> when there is none either.
\<close>

definition get_prop :: "MetricRecord \<Rightarrow> string \<Rightarrow> jsval" where
  "get_prop obj key =
     (case map_of obj key of
        Some v \<Rightarrow> v
      | None \<Rightarrow> (case map_of Object_prototype key of None \<Rightarrow> JUndefined | Some v \<Rightarrow> v))"

text \<open>
  Defining the own property \<open>key\<close> of an object, as a property of an object literal and
  a spread do: overwrite in place, or add the property at the end.
\<close>

fun set_prop :: "string \<Rightarrow> jsval \<Rightarrow> MetricRecord \<Rightarrow> MetricRecord" where
  "set_prop key v [] = [(key, v)]"
| "set_prop key v ((k, w) # obj) =
     (if k = key then (k, v) # obj else (k, w) # set_prop key v obj)"

text \<open>
  The assignment \<open>obj[key] = v\<close> on an object that started as \<open>{}\<close>. It defines the
  own property, but for \<open>__proto__\<close>: there the assignment runs the setter inherited from
  \<open>Object.prototype\<close>, which stores no own property.
\<close>

definition assign_prop :: "string \<Rightarrow> jsval \<Rightarrow> MetricRecord \<Rightarrow> MetricRecord" where
  "assign_prop key v obj = (if key = ''__proto__'' then obj else set_prop key v obj)"

text \<open>\<open>{ ...a, ...b }\<close>: a fresh object that receives the properties of \<open>a\<close>, then of \<open>b\<close>.\<close>

definition spread :: "MetricRecord \<Rightarrow> MetricRecord \<Rightarrow> MetricRecord" where
  "spread a b = fold (\<lambda>(k, v). set_prop k v) (a @ b) []"

definition keys :: "MetricRecord \<Rightarrow> string set" where
  "keys obj = fst ` set obj"

section \<open>The processing context\<close>

text \<open>
  Modelled from the spec: the declaration of \<open>StorageContext\<close> is in the storage
  module, which is missing. The context holds the job's metadata, \<open>attempts\<close> and
  \<open>maxAttempts\<close>, both optional, and an optional logger; these are also the fields the
  middleware reads: \<open>ctx.storage.job?.attempts\<close>, \<open>ctx.storage.job?.maxAttempts\<close> and
  \<open>ctx.logger?.error\<close>. An unset (undefined or null) field is \<open>None\<close>; a logger is
  known by its name.
\<close>

record Job =
  attempts :: "int option"
  maxAttempts :: "int option"

record Storage =
  job :: "Job option"

record StorageContext =
  storage :: Storage
  logger :: "string option"

section \<open>Options of the metrics middleware\<close>

text \<open>
  What awaiting the customizer's promise gives: the record it resolves to, as its type
  \<open>Promise<MetricRecord>\<close> declares, or the value it rejects with (a synchronous throw
  of the customizer lands in the same \<open>catch\<close>).
\<close>

datatype customizer_result = Resolves MetricRecord | Rejects jsval

record MetricLabelsOpts =
  labelNames :: "string list"
  customizer :: "StorageContext \<Rightarrow> customizer_result"

record MetricsOpts =
  registry :: "string option"
  labels :: "MetricLabelsOpts option"
  processingTimeBuckets :: "int list option"

section \<open>Effects\<close>

text \<open>
  Everything the middleware does besides returning is an event of a trace, in the order
  of execution: \<open>Inc name ls\<close> is \<open>counter.labels(ls).inc()\<close> on the counter \<open>name\<close>
  (\<open>counter.inc()\<close> when \<open>ls\<close> is empty), \<open>Observe name ls t\<close> is
  \<open>histogram.labels(ls).observe(t)\<close>, \<open>LogError lg msg err\<close> is
  \<open>logger.error(msg, err)\<close>. The downstream handler is invoked at \<open>NextInvoked\<close>, its
  own effects (known by name) are wrapped in \<open>Downstream\<close>, and its promise settles at
  \<open>NextSettled\<close>. The registry and the logger only record: they do not throw.
\<close>

datatype event =
    Inc string MetricRecord
  | Observe string MetricRecord int
  | NextInvoked
  | Downstream string
  | NextSettled
  | CustomizerInvoked
  | LogError string string jsval

text \<open>
  One run of \<open>next()\<close>: the effects of the rest of the pipeline, the value it raised
  (\<open>None\<close> when it returned normally) and the context as the run left it (the context
  is shared and mutable).
\<close>

record downstream =
  effects :: "string list"
  raised :: "jsval option"
  ctx_after :: StorageContext

section \<open>getLabels\<close>

definition defaultLabels :: "bool \<Rightarrow> MetricRecord" where
  "defaultLabels failed = [(''status'', JStr (if failed then ''failed'' else ''succeeded''))]"

text \<open>The \<open>forEach\<close> over the allowed keys that fills \<open>validatedLabels\<close>.\<close>

definition validatedLabels :: "string list \<Rightarrow> MetricRecord \<Rightarrow> MetricRecord" where
  "validatedLabels allowedKeys ls =
     fold (\<lambda>key acc. if truthy (get_prop ls key) then assign_prop key (get_prop ls key) acc
                      else acc)
       allowedKeys []"

definition getLabels ::
  "StorageContext \<Rightarrow> MetricsOpts \<Rightarrow> bool \<Rightarrow> event list \<times> MetricRecord" where
  "getLabels ctx opts failed =
     (case labels opts of
        None \<Rightarrow> ([], spread (validatedLabels [] []) (defaultLabels failed))
      | Some l \<Rightarrow>
          (case customizer l ctx of
             Resolves ls \<Rightarrow>
               ([CustomizerInvoked],
                spread (validatedLabels (labelNames l) ls) (defaultLabels failed))
           | Rejects error \<Rightarrow>
               (CustomizerInvoked #
                  (case logger ctx of
                     None \<Rightarrow> []
                   | Some lg \<Rightarrow>
                       [LogError lg ''Failed to customize metric labels, please review'' error]),
                defaultLabels failed)))"

section \<open>The metrics middleware\<close>

text \<open>
  The metrics that \<open>metrics(opts)\<close> registers, without their \<open>help\<close> texts. A
  registry is known by its name; \<open>register\<close> is the default registry of the metrics
  library.
\<close>

record MetricDecl =
  name :: string
  metricLabelNames :: "string list"
  buckets :: "int list"
  registers :: "string list"

definition register :: string where
  "register = ''register''"

definition allowedKeys :: "MetricsOpts \<Rightarrow> string list" where
  "allowedKeys opts = (case labels opts of None \<Rightarrow> [] | Some l \<Rightarrow> labelNames l)"

definition opts_registry :: "MetricsOpts \<Rightarrow> string" where
  "opts_registry opts = (case registry opts of None \<Rightarrow> register | Some r \<Rightarrow> r)"

definition processedVaasTotal :: "MetricsOpts \<Rightarrow> MetricDecl" where
  "processedVaasTotal opts =
     \<lparr>name = ''vaas_processed_total'',
      metricLabelNames = [''status''] @ allowedKeys opts,
      buckets = [],
      registers = [opts_registry opts]\<rparr>"

definition finishedVaasTotal :: "MetricsOpts \<Rightarrow> MetricDecl" where
  "finishedVaasTotal opts =
     \<lparr>name = ''vaas_finished_total'',
      metricLabelNames = [''status'', ''terminal''] @ allowedKeys opts,
      buckets = [],
      registers = [opts_registry opts]\<rparr>"

definition processingDuration :: "MetricsOpts \<Rightarrow> MetricDecl" where
  "processingDuration opts =
     \<lparr>name = ''vaas_processing_duration'',
      metricLabelNames = [''status''] @ allowedKeys opts,
      buckets = (case processingTimeBuckets opts of
                   None \<Rightarrow> [6000, 7000, 7500, 8000, 8500, 9000, 10000, 12000]
                 | Some bs \<Rightarrow> bs),
      registers = [opts_registry opts]\<rparr>"

text \<open>\<open>(job?.attempts ?? 0) === (job?.maxAttempts ?? -1)\<close>.\<close>

definition reachedMaxAttempts :: "StorageContext \<Rightarrow> bool" where
  "reachedMaxAttempts ctx =
     ((case (case job (storage ctx) of None \<Rightarrow> None | Some j \<Rightarrow> attempts j) of
         None \<Rightarrow> 0 | Some a \<Rightarrow> a)
      = (case (case job (storage ctx) of None \<Rightarrow> None | Some j \<Rightarrow> maxAttempts j) of
           None \<Rightarrow> - 1 | Some m \<Rightarrow> m))"

text \<open>The template literal \<open>`${b}`\<close> of a boolean.\<close>

definition string_of_bool :: "bool \<Rightarrow> string" where
  "string_of_bool b = (if b then ''true'' else ''false'')"

text \<open>
  The variable \<open>failure\<close> after the \<open>try\<close>/\<open>catch\<close> around \<open>await next()\<close>: it
  starts as \<open>null\<close> and receives whatever the downstream raised.
\<close>

definition failure :: "downstream \<Rightarrow> jsval" where
  "failure run = (case raised run of None \<Rightarrow> JNull | Some e \<Rightarrow> e)"

text \<open>
  The handler that \<open>metrics(opts)\<close> returns, run on a context and a downstream handler.
  \<open>startTime\<close> and \<open>endTime\<close> are the two readings of \<open>Date.now()\<close>, before and
  after \<open>next\<close>. The result is the trace and the outcome: \<open>Inl e\<close> when the handler
  throws \<open>e\<close>, \<open>Inr ()\<close> when it returns.
\<close>

definition metrics ::
  "MetricsOpts \<Rightarrow> StorageContext \<Rightarrow> (StorageContext \<Rightarrow> downstream) \<Rightarrow> int \<Rightarrow> int
     \<Rightarrow> event list \<times> (jsval + unit)" where
  "metrics opts ctx next startTime endTime =
     (let run = next ctx;
          ctx' = ctx_after run;
          time = endTime - startTime;
          (evs, ls) = getLabels ctx' opts (failure run \<noteq> JNull);
          before =
            [Inc (name (processedVaasTotal opts)) [], NextInvoked]
            @ map Downstream (effects run) @ [NextSettled]
            @ evs @ [Observe (name (processingDuration opts)) ls time]
      in if truthy (failure run) then
           (before @
              [Inc (name (finishedVaasTotal opts))
                 (spread ls [(''terminal'', JStr (string_of_bool (reachedMaxAttempts ctx')))])],
            Inl (failure run))
         else (before @ [Inc (name (finishedVaasTotal opts)) ls], Inr ()))"

section \<open>Reading a trace\<close>

text \<open>The label sets with which the counter \<open>n\<close> was incremented, in order.\<close>

definition increments :: "string \<Rightarrow> event list \<Rightarrow> MetricRecord list" where
  "increments n tr =
     List.map_filter (\<lambda>ev. case ev of Inc m ls \<Rightarrow> if m = n then Some ls else None | _ \<Rightarrow> None) tr"

text \<open>The observations of the histogram \<open>n\<close>: label set and value, in order.\<close>

definition observations :: "string \<Rightarrow> event list \<Rightarrow> (MetricRecord \<times> int) list" where
  "observations n tr =
     List.map_filter
       (\<lambda>ev. case ev of Observe m ls t \<Rightarrow> if m = n then Some (ls, t) else None | _ \<Rightarrow> None) tr"

text \<open>The errors handed to a logger, in order.\<close>

definition logged :: "event list \<Rightarrow> jsval list" where
  "logged tr = List.map_filter (\<lambda>ev. case ev of LogError lg msg err \<Rightarrow> Some err | _ \<Rightarrow> None) tr"

section \<open>The action executor\<close>

text \<open>
  An action, as the sources declare it: a chain id and a function of a toolbox and the
  chain id, whose promise resolves to a value (\<open>Inr\<close>) or rejects with an error
  (\<open>Inl\<close>). \<open>ChainId\<close> comes from the SDK; chain ids are numbers.
\<close>

type_synonym ChainId = nat

record ('tb, 'x, 't) Action =
  chainId :: ChainId
  f :: "'tb \<Rightarrow> ChainId \<Rightarrow> 'x + 't"

text \<open>
  Modelled from the spec: the errors of \<open>execute\<close>, whose implementation is missing. A
  resolution error (no toolbox for the chain) is distinct from the failures of the
  action's own function, which are passed on unchanged.
\<close>

datatype 'x execute_error = ResolutionError ChainId | ActionError 'x

text \<open>
  Modelled from the spec: the implementation of \<open>ActionExecutor\<close> is missing, the
  sources only declare its interface. Following the specification of the executor:
  resolve the toolbox for \<open>action.chainId\<close> (the resolution is a parameter: a chain id
  gives a toolbox or nothing), fail with a resolution error when there is none, else
  invoke \<open>action.f(toolBox, action.chainId)\<close>, return its result and propagate its
  failure. The first component of the result lists the invocations of \<open>action.f\<close>.
\<close>

definition execute ::
  "(ChainId \<Rightarrow> 'tb option) \<Rightarrow> ('tb, 'x, 't) Action
     \<Rightarrow> ('tb \<times> ChainId) list \<times> ('x execute_error + 't)" where
  "execute resolve action =
     (case resolve (chainId action) of
        None \<Rightarrow> ([], Inl (ResolutionError (chainId action)))
      | Some toolBox \<Rightarrow>
          ([(toolBox, chainId action)],
           (case f action toolBox (chainId action) of
              Inl e \<Rightarrow> Inl (ActionError e)
            | Inr v \<Rightarrow> Inr v)))"

section \<open>Properties of label records\<close>

lemma map_of_set_prop: "map_of (set_prop k v obj) = (map_of obj)(k \<mapsto> v)"
  by (induction obj) (auto simp: fun_eq_iff)

lemma map_of_fold_set_prop:
  "map_of (fold (\<lambda>(k, v). set_prop k v) xs acc) = map_of acc ++ map_of (rev xs)"
proof (induction xs arbitrary: acc)
  case Nil
  show ?case by simp
next
  case (Cons x xs)
  obtain k v where x: "x = (k, v)" by (cases x)
  have "map_of (fold (\<lambda>(k, v). set_prop k v) (x # xs) acc)
        = map_of (set_prop k v acc) ++ map_of (rev xs)"
    using Cons.IH [of "set_prop k v acc"] by (simp add: x)
  also have "\<dots> = map_of acc ++ map_of (rev (x # xs))"
    by (auto simp: x map_of_set_prop fun_eq_iff map_add_def split: option.splits)
  finally show ?case .
qed

lemma map_of_spread_single:
  "map_of (spread a [(s, w)]) k = (if k = s then Some w else map_of (spread a []) k)"
  unfolding spread_def map_of_fold_set_prop
  by (simp add: map_add_def split: option.splits)

lemma map_of_assign_prop:
  "map_of (assign_prop k v obj)
   = (if k = ''__proto__'' then map_of obj else (map_of obj)(k \<mapsto> v))"
  by (simp add: assign_prop_def map_of_set_prop)

lemma map_of_validatedLabels_aux:
  "map_of (fold (\<lambda>key acc. if truthy (get_prop ls key) then assign_prop key (get_prop ls key) acc
                            else acc) ks acc) k
   = (if k \<in> set ks \<and> truthy (get_prop ls k) \<and> k \<noteq> ''__proto__'' then Some (get_prop ls k)
      else map_of acc k)"
  by (induction ks arbitrary: acc) (auto simp: map_of_assign_prop)

lemma map_of_validatedLabels:
  "map_of (validatedLabels ks ls) k
   = (if k \<in> set ks \<and> truthy (get_prop ls k) \<and> k \<noteq> ''__proto__'' then Some (get_prop ls k)
      else None)"
  unfolding validatedLabels_def by (simp add: map_of_validatedLabels_aux)

lemma keys_set_prop: "fst ` set (set_prop k v obj) = insert k (fst ` set obj)"
proof (induction obj)
  case Nil
  show ?case by simp
next
  case (Cons p obj)
  obtain k' w where p: "p = (k', w)" by (cases p)
  show ?case
  proof (cases "k' = k")
    case True
    then show ?thesis by (simp add: p)
  next
    case False
    then show ?thesis using Cons.IH by (simp add: p insert_commute)
  qed
qed

lemma distinct_set_prop:
  "distinct (map fst obj) \<Longrightarrow> distinct (map fst (set_prop k v obj))"
proof (induction obj)
  case Nil
  show ?case by simp
next
  case (Cons p obj)
  obtain k' w where p: "p = (k', w)" by (cases p)
  from Cons show ?case
    using keys_set_prop [of k v obj] by (auto simp: p)
qed

lemma distinct_assign_prop:
  "distinct (map fst obj) \<Longrightarrow> distinct (map fst (assign_prop k v obj))"
  by (simp add: assign_prop_def distinct_set_prop)

lemma distinct_validatedLabels_aux:
  "distinct (map fst acc) \<Longrightarrow>
   distinct (map fst (fold (\<lambda>key acc. if truthy (get_prop ls key)
                                        then assign_prop key (get_prop ls key) acc else acc) ks acc))"
  by (induction ks arbitrary: acc) (simp_all add: distinct_assign_prop)

lemma distinct_validatedLabels: "distinct (map fst (validatedLabels ks ls))"
  unfolding validatedLabels_def by (rule distinct_validatedLabels_aux) simp

lemma map_of_rev_distinct: "distinct (map fst xs) \<Longrightarrow> map_of (rev xs) = map_of xs"
proof (induction xs)
  case Nil
  show ?case by simp
next
  case (Cons p xs)
  obtain k v where p: "p = (k, v)" by (cases p)
  from Cons.prems have "map_of xs k = None"
    by (simp add: p map_of_eq_None_iff)
  with Cons show ?case
    by (auto simp: p fun_eq_iff map_add_def split: option.splits)
qed

lemma map_of_spread_nil:
  "distinct (map fst a) \<Longrightarrow> map_of (spread a []) k = map_of a k"
  unfolding spread_def map_of_fold_set_prop
  by (simp add: map_of_rev_distinct)

lemma map_of_spread_validated:
  "map_of (spread (validatedLabels ks ls) [(s, w)]) k
   = (if k = s then Some w
      else if k \<in> set ks \<and> truthy (get_prop ls k) \<and> k \<noteq> ''__proto__''
      then Some (get_prop ls k) else None)"
  by (simp add: map_of_spread_single map_of_spread_nil distinct_validatedLabels
        map_of_validatedLabels)

section \<open>Properties of getLabels and of the handler\<close>

lemma getLabels_no_labels:
  "labels opts = None \<Longrightarrow> getLabels ctx opts failed = ([], defaultLabels failed)"
  by (simp add: getLabels_def spread_def validatedLabels_def assign_prop_def
        Object_prototype_def defaultLabels_def)

lemma getLabels_Rejects:
  "labels opts = Some l \<Longrightarrow> customizer l ctx = Rejects err \<Longrightarrow>
   getLabels ctx opts failed =
     (CustomizerInvoked #
        (case logger ctx of
           None \<Rightarrow> []
         | Some lg \<Rightarrow> [LogError lg ''Failed to customize metric labels, please review'' err]),
      defaultLabels failed)"
  by (simp add: getLabels_def)

lemma getLabels_Resolves:
  "labels opts = Some l \<Longrightarrow> customizer l ctx = Resolves ls \<Longrightarrow>
   getLabels ctx opts failed =
     ([CustomizerInvoked], spread (validatedLabels (labelNames l) ls) (defaultLabels failed))"
  by (simp add: getLabels_def)

lemma map_of_getLabels:
  "map_of (snd (getLabels ctx opts failed)) k =
     (if k = ''status'' then Some (JStr (if failed then ''failed'' else ''succeeded''))
      else (case labels opts of
              None \<Rightarrow> None
            | Some l \<Rightarrow>
                (case customizer l ctx of
                   Rejects err \<Rightarrow> None
                 | Resolves ls \<Rightarrow>
                     if k \<in> set (labelNames l) \<and> truthy (get_prop ls k) \<and> k \<noteq> ''__proto__''
                     then Some (get_prop ls k) else None)))"
proof (cases "labels opts")
  case None
  then show ?thesis by (simp add: getLabels_no_labels) (simp add: defaultLabels_def)
next
  case (Some l)
  show ?thesis
  proof (cases "customizer l ctx")
    case (Resolves ls)
    show ?thesis
      unfolding getLabels_Resolves [OF Some Resolves] defaultLabels_def
      by (simp add: map_of_spread_validated Some Resolves)
  next
    case (Rejects err)
    show ?thesis
      unfolding getLabels_Rejects [OF Some Rejects] defaultLabels_def
      by (simp add: Some Rejects)
  qed
qed

lemma getLabels_events_quiet:
  "ev \<in> set (fst (getLabels ctx opts failed)) \<Longrightarrow>
   ev = CustomizerInvoked \<or> (\<exists>lg msg err. ev = LogError lg msg err)"
  by (auto simp: getLabels_def split: option.splits customizer_result.splits)

lemma metrics_trace:
  "fst (metrics opts ctx next startTime endTime) =
     [Inc ''vaas_processed_total'' [], NextInvoked]
     @ map Downstream (effects (next ctx)) @ [NextSettled]
     @ fst (getLabels (ctx_after (next ctx)) opts (failure (next ctx) \<noteq> JNull))
     @ [Observe ''vaas_processing_duration''
          (snd (getLabels (ctx_after (next ctx)) opts (failure (next ctx) \<noteq> JNull)))
          (endTime - startTime),
        Inc ''vaas_finished_total''
          (if truthy (failure (next ctx))
           then spread (snd (getLabels (ctx_after (next ctx)) opts (failure (next ctx) \<noteq> JNull)))
                  [(''terminal'',
                    JStr (string_of_bool (reachedMaxAttempts (ctx_after (next ctx)))))]
           else snd (getLabels (ctx_after (next ctx)) opts (failure (next ctx) \<noteq> JNull)))]"
  by (simp add: metrics_def Let_def processedVaasTotal_def processingDuration_def
        finishedVaasTotal_def split: prod.splits)

lemma metrics_outcome:
  "snd (metrics opts ctx next startTime endTime) =
     (if truthy (failure (next ctx)) then Inl (failure (next ctx)) else Inr ())"
  by (simp add: metrics_def Let_def split: prod.splits)

section \<open>Reading the trace of the handler\<close>

lemma increments_simps [simp]:
  "increments n [] = []"
  "increments n (Inc m ls # tr) = (if m = n then ls # increments n tr else increments n tr)"
  "increments n (Observe m ls t # tr) = increments n tr"
  "increments n (NextInvoked # tr) = increments n tr"
  "increments n (Downstream d # tr) = increments n tr"
  "increments n (NextSettled # tr) = increments n tr"
  "increments n (CustomizerInvoked # tr) = increments n tr"
  "increments n (LogError lg msg err # tr) = increments n tr"
  by (simp_all add: increments_def List.map_filter_simps)

lemma increments_append [simp]: "increments n (xs @ ys) = increments n xs @ increments n ys"
  by (simp add: increments_def List.map_filter_def)

lemma increments_Downstream [simp]: "increments n (map Downstream ds) = []"
  by (induction ds) simp_all

lemma increments_getLabels [simp]: "increments n (fst (getLabels ctx opts failed)) = []"
  by (simp add: getLabels_def split: option.splits customizer_result.splits)

lemma observations_simps [simp]:
  "observations n [] = []"
  "observations n (Inc m ls # tr) = observations n tr"
  "observations n (Observe m ls t # tr) =
     (if m = n then (ls, t) # observations n tr else observations n tr)"
  "observations n (NextInvoked # tr) = observations n tr"
  "observations n (Downstream d # tr) = observations n tr"
  "observations n (NextSettled # tr) = observations n tr"
  "observations n (CustomizerInvoked # tr) = observations n tr"
  "observations n (LogError lg msg err # tr) = observations n tr"
  by (simp_all add: observations_def List.map_filter_simps)

lemma observations_append [simp]:
  "observations n (xs @ ys) = observations n xs @ observations n ys"
  by (simp add: observations_def List.map_filter_def)

lemma observations_Downstream [simp]: "observations n (map Downstream ds) = []"
  by (induction ds) simp_all

lemma observations_getLabels [simp]: "observations n (fst (getLabels ctx opts failed)) = []"
  by (simp add: getLabels_def split: option.splits customizer_result.splits)

lemma logged_simps [simp]:
  "logged [] = []"
  "logged (Inc m ls # tr) = logged tr"
  "logged (Observe m ls t # tr) = logged tr"
  "logged (NextInvoked # tr) = logged tr"
  "logged (Downstream d # tr) = logged tr"
  "logged (NextSettled # tr) = logged tr"
  "logged (CustomizerInvoked # tr) = logged tr"
  "logged (LogError lg msg err # tr) = err # logged tr"
  by (simp_all add: logged_def List.map_filter_simps)

lemma logged_append [simp]: "logged (xs @ ys) = logged xs @ logged ys"
  by (simp add: logged_def List.map_filter_def)

lemma logged_Downstream [simp]: "logged (map Downstream ds) = []"
  by (induction ds) simp_all

lemma metrics_observations:
  "observations ''vaas_processing_duration'' (fst (metrics opts ctx next startTime endTime)) =
     [(snd (getLabels (ctx_after (next ctx)) opts (failure (next ctx) \<noteq> JNull)), endTime - startTime)]"
  by (simp add: metrics_trace)

lemma metrics_finished:
  "increments ''vaas_finished_total'' (fst (metrics opts ctx next startTime endTime)) =
     [if truthy (failure (next ctx))
      then spread (snd (getLabels (ctx_after (next ctx)) opts (failure (next ctx) \<noteq> JNull)))
             [(''terminal'', JStr (string_of_bool (reachedMaxAttempts (ctx_after (next ctx)))))]
      else snd (getLabels (ctx_after (next ctx)) opts (failure (next ctx) \<noteq> JNull))]"
  by (simp add: metrics_trace)

lemma metrics_logged:
  "logged (fst (metrics opts ctx next startTime endTime)) =
     logged (fst (getLabels (ctx_after (next ctx)) opts (failure (next ctx) \<noteq> JNull)))"
  by (simp add: metrics_trace)

lemma processed_increments:
  "increments ''vaas_processed_total'' (fst (metrics opts ctx next startTime endTime)) = [[]]"
  by (simp add: metrics_trace)

lemma keys_conv_dom: "keys obj = dom (map_of obj)"
  by (simp add: keys_def dom_map_of_conv_image_fst)

lemma distinct_fold_set_prop:
  "distinct (map fst acc) \<Longrightarrow> distinct (map fst (fold (\<lambda>(k, v). set_prop k v) xs acc))"
  by (induction xs arbitrary: acc) (auto simp: distinct_set_prop)

lemma distinct_spread: "distinct (map fst (spread a b))"
  unfolding spread_def by (rule distinct_fold_set_prop) simp

lemma distinct_getLabels: "distinct (map fst (snd (getLabels ctx opts failed)))"
  unfolding getLabels_def
  by (simp add: distinct_spread split: option.splits customizer_result.splits)
     (simp add: defaultLabels_def)

lemma reachedMaxAttempts_cases:
  "reachedMaxAttempts c =
     (case job (storage c) of
        None \<Rightarrow> False
      | Some j \<Rightarrow>
          (case (attempts j, maxAttempts j) of
             (Some a, Some m) \<Rightarrow> a = m
           | (None, Some m) \<Rightarrow> m = 0
           | (Some a, None) \<Rightarrow> a = - 1
           | (None, None) \<Rightarrow> False))"
  by (auto simp: reachedMaxAttempts_def split: option.splits)

section \<open>The handler and the downstream failure\<close>

text \<open>
  C1. The claim: whatever value the downstream handler raises, the middleware raises the
  same value to its caller once the metrics are recorded, and never swallows a processing
  failure. The handler tests \<open>if (failure)\<close> before \<open>throw failure\<close>, so a falsy
  raised value is not raised again. Here the downstream rejects with \<open>undefined\<close>: the
  histogram is observed with status \<open>failed\<close>, the finished counter is incremented
  without a terminal label, and the handler returns normally. In general the handler
  raises the downstream's value exactly when that value is truthy (lemma
  \<open>metrics_outcome\<close>).
\<close>

theorem metrics_swallows_undefined_failure:
  "metrics \<lparr>registry = None, labels = None, processingTimeBuckets = None\<rparr>
     \<lparr>storage = \<lparr>job = None\<rparr>, logger = None\<rparr>
     (\<lambda>c. \<lparr>effects = [], raised = Some JUndefined, ctx_after = c\<rparr>) 0 7
   = ([Inc ''vaas_processed_total'' [], NextInvoked, NextSettled,
       Observe ''vaas_processing_duration'' [(''status'', JStr ''failed'')] 7,
       Inc ''vaas_finished_total'' [(''status'', JStr ''failed'')]],
      Inr ())"
  by (simp add: metrics_def failure_def getLabels_def spread_def validatedLabels_def assign_prop_def
        Object_prototype_def
        defaultLabels_def processedVaasTotal_def processingDuration_def finishedVaasTotal_def)

text \<open>
  C5. The claim: the duration histogram records exactly one observation per invocation,
  with status \<open>succeeded\<close> if the downstream returned normally and \<open>failed\<close> if it
  raised. The one observation always happens (lemma \<open>metrics_observations\<close>), but the
  status is \<open>failure !== null\<close>, and \<open>null\<close> is also the initial value of \<open>failure\<close>:
  a downstream that rejects with \<open>null\<close> is observed with status \<open>succeeded\<close>.
\<close>

theorem metrics_null_failure_observed_as_succeeded:
  "metrics \<lparr>registry = None, labels = None, processingTimeBuckets = None\<rparr>
     \<lparr>storage = \<lparr>job = None\<rparr>, logger = None\<rparr>
     (\<lambda>c. \<lparr>effects = [], raised = Some JNull, ctx_after = c\<rparr>) 0 7
   = ([Inc ''vaas_processed_total'' [], NextInvoked, NextSettled,
       Observe ''vaas_processing_duration'' [(''status'', JStr ''succeeded'')] 7,
       Inc ''vaas_finished_total'' [(''status'', JStr ''succeeded'')]],
      Inr ())"
  by (simp add: metrics_def failure_def getLabels_def spread_def validatedLabels_def assign_prop_def
        Object_prototype_def
        defaultLabels_def processedVaasTotal_def processingDuration_def finishedVaasTotal_def)

section \<open>The counters\<close>

text \<open>
  C6. On every invocation the counter \<open>vaas_processed_total\<close> is incremented exactly
  once, and that increment is all that happens before the downstream handler is invoked:
  it precedes the invocation of \<open>next\<close> and every effect of the downstream, whatever the
  outcome.
\<close>

theorem processed_total_once_before_next:
  "increments ''vaas_processed_total'' (fst (metrics opts ctx next startTime endTime)) = [[]]
   \<and> takeWhile (\<lambda>ev. ev \<noteq> NextInvoked) (fst (metrics opts ctx next startTime endTime))
       = [Inc ''vaas_processed_total'' []]
   \<and> take (2 + length (effects (next ctx))) (fst (metrics opts ctx next startTime endTime))
       = Inc ''vaas_processed_total'' [] # NextInvoked # map Downstream (effects (next ctx))"
  by (simp add: metrics_trace)

text \<open>
  C10. For every configuration the handler invokes \<open>next\<close> exactly once. Until
  \<open>next\<close> has settled, the trace holds the increment of the processed counter, the
  invocation and the downstream's effects, and nothing else; the customizer, the log,
  the observation of the histogram and the increment of the finished counter all come
  after it has settled. The last conjunct is the configuration with no labels, no
  registry and no buckets.
\<close>

theorem next_invoked_once_before_recording:
  "filter (\<lambda>ev. ev = NextInvoked) (fst (metrics opts ctx next startTime endTime)) = [NextInvoked]
   \<and> takeWhile (\<lambda>ev. ev \<noteq> NextSettled) (fst (metrics opts ctx next startTime endTime))
       = Inc ''vaas_processed_total'' [] # NextInvoked # map Downstream (effects (next ctx))
   \<and> dropWhile (\<lambda>ev. ev \<noteq> NextSettled) (fst (metrics opts ctx next startTime endTime))
       = NextSettled
         # fst (getLabels (ctx_after (next ctx)) opts (failure (next ctx) \<noteq> JNull))
         @ [Observe ''vaas_processing_duration''
              (snd (getLabels (ctx_after (next ctx)) opts (failure (next ctx) \<noteq> JNull)))
              (endTime - startTime),
            Inc ''vaas_finished_total''
              (if truthy (failure (next ctx))
               then spread
                      (snd (getLabels (ctx_after (next ctx)) opts (failure (next ctx) \<noteq> JNull)))
                      [(''terminal'',
                        JStr (string_of_bool (reachedMaxAttempts (ctx_after (next ctx)))))]
               else snd (getLabels (ctx_after (next ctx)) opts (failure (next ctx) \<noteq> JNull)))]
   \<and> metrics \<lparr>registry = None, labels = None, processingTimeBuckets = None\<rparr> ctx
        (\<lambda>c. \<lparr>effects = ds, raised = None, ctx_after = c\<rparr>) startTime endTime
       = (Inc ''vaas_processed_total'' [] # NextInvoked # map Downstream ds
          @ [NextSettled,
             Observe ''vaas_processing_duration'' [(''status'', JStr ''succeeded'')]
               (endTime - startTime),
             Inc ''vaas_finished_total'' [(''status'', JStr ''succeeded'')]],
          Inr ())"
proof (intro conjI)
  have q: "filter (\<lambda>ev. ev = NextInvoked) (fst (getLabels c opts b)) = []" for c b
    by (simp add: getLabels_def split: option.splits customizer_result.splits)
  have d: "filter (\<lambda>ev. ev = NextInvoked) (map Downstream ds) = []" for ds
    by (induction ds) simp_all
  show "filter (\<lambda>ev. ev = NextInvoked) (fst (metrics opts ctx next startTime endTime))
        = [NextInvoked]"
    by (simp add: metrics_trace q d)
  have t: "takeWhile (\<lambda>ev. ev \<noteq> NextSettled) (map Downstream ds @ NextSettled # rest)
           = map Downstream ds" for ds rest
    by (induction ds) simp_all
  have u: "dropWhile (\<lambda>ev. ev \<noteq> NextSettled) (map Downstream ds @ NextSettled # rest)
           = NextSettled # rest" for ds rest
    by (induction ds) simp_all
  show "takeWhile (\<lambda>ev. ev \<noteq> NextSettled) (fst (metrics opts ctx next startTime endTime))
       = Inc ''vaas_processed_total'' [] # NextInvoked # map Downstream (effects (next ctx))"
    by (simp add: metrics_trace t)
  show "dropWhile (\<lambda>ev. ev \<noteq> NextSettled) (fst (metrics opts ctx next startTime endTime))
       = NextSettled
         # fst (getLabels (ctx_after (next ctx)) opts (failure (next ctx) \<noteq> JNull))
         @ [Observe ''vaas_processing_duration''
              (snd (getLabels (ctx_after (next ctx)) opts (failure (next ctx) \<noteq> JNull)))
              (endTime - startTime),
            Inc ''vaas_finished_total''
              (if truthy (failure (next ctx))
               then spread
                      (snd (getLabels (ctx_after (next ctx)) opts (failure (next ctx) \<noteq> JNull)))
                      [(''terminal'',
                        JStr (string_of_bool (reachedMaxAttempts (ctx_after (next ctx)))))]
               else snd (getLabels (ctx_after (next ctx)) opts (failure (next ctx) \<noteq> JNull)))]"
    by (simp add: metrics_trace u)
  show "metrics \<lparr>registry = None, labels = None, processingTimeBuckets = None\<rparr> ctx
        (\<lambda>c. \<lparr>effects = ds, raised = None, ctx_after = c\<rparr>) startTime endTime
       = (Inc ''vaas_processed_total'' [] # NextInvoked # map Downstream ds
          @ [NextSettled,
             Observe ''vaas_processing_duration'' [(''status'', JStr ''succeeded'')]
               (endTime - startTime),
             Inc ''vaas_finished_total'' [(''status'', JStr ''succeeded'')]],
          Inr ())"
    by (simp add: metrics_def failure_def getLabels_def spread_def validatedLabels_def assign_prop_def
        Object_prototype_def
        defaultLabels_def processedVaasTotal_def processingDuration_def finishedVaasTotal_def)
qed

text \<open>
  The terminal label is computed as \<open>(attempts ?? 0) === (maxAttempts ?? -1)\<close>. With
  \<open>attempts\<close> unset and \<open>maxAttempts = 0\<close> both sides are \<open>0\<close>: the label is
  \<open>true\<close> although \<open>attempts\<close> is unset.
\<close>

theorem terminal_true_with_attempts_unset:
  "increments ''vaas_finished_total''
     (fst (metrics \<lparr>registry = None, labels = None, processingTimeBuckets = None\<rparr>
        \<lparr>storage = \<lparr>job = Some \<lparr>attempts = None, maxAttempts = Some 0\<rparr>\<rparr>, logger = None\<rparr>
        (\<lambda>c. \<lparr>effects = [], raised = Some (JError ''boom''), ctx_after = c\<rparr>) 0 7))
   = [[(''status'', JStr ''failed''), (''terminal'', JStr ''true'')]]"
  by (simp add: metrics_finished failure_def getLabels_no_labels defaultLabels_def spread_def
        reachedMaxAttempts_def string_of_bool_def)

text \<open>
  C2, as the code has it. When the downstream raises a truthy value, the counter
  \<open>vaas_finished_total\<close> is incremented exactly once, with the computed labels and a
  terminal label that is the string of \<open>(attempts ?? 0) === (maxAttempts ?? -1)\<close>. When
  the downstream returns normally, it is incremented exactly once with the computed
  labels alone, which have no terminal key unless the allow-list names one. The
  comparison is \<open>attempts === maxAttempts\<close> when both are set and false when the job or
  both fields are unset; with only \<open>attempts\<close> unset it holds exactly when
  \<open>maxAttempts\<close> is \<open>0\<close>, with only \<open>maxAttempts\<close> unset exactly when \<open>attempts\<close>
  is \<open>-1\<close>.
\<close>

theorem finished_total_terminal_label:
  "(raised (next ctx) = Some e \<and> truthy e \<longrightarrow>
      increments ''vaas_finished_total'' (fst (metrics opts ctx next startTime endTime))
        = [spread (snd (getLabels (ctx_after (next ctx)) opts True))
             [(''terminal'', JStr (string_of_bool (reachedMaxAttempts (ctx_after (next ctx)))))]]
      \<and> map (\<lambda>ls. get_prop ls ''terminal'')
            (increments ''vaas_finished_total'' (fst (metrics opts ctx next startTime endTime)))
          = [JStr (if reachedMaxAttempts (ctx_after (next ctx)) then ''true'' else ''false'')])
   \<and> (raised (next ctx) = None \<longrightarrow>
        increments ''vaas_finished_total'' (fst (metrics opts ctx next startTime endTime))
          = [snd (getLabels (ctx_after (next ctx)) opts False)]
        \<and> (''terminal'' \<notin> set (allowedKeys opts) \<longrightarrow>
             ''terminal'' \<notin> keys (snd (getLabels (ctx_after (next ctx)) opts False))))
   \<and> reachedMaxAttempts c =
        (case job (storage c) of
           None \<Rightarrow> False
         | Some j \<Rightarrow>
             (case (attempts j, maxAttempts j) of
                (Some a, Some m) \<Rightarrow> a = m
              | (None, Some m) \<Rightarrow> m = 0
              | (Some a, None) \<Rightarrow> a = - 1
              | (None, None) \<Rightarrow> False))"
proof (intro conjI impI)
  assume h: "raised (next ctx) = Some e \<and> truthy e"
  then have f: "failure (next ctx) = e" "truthy e" by (simp_all add: failure_def)
  then have ne: "e \<noteq> JNull" by auto
  show "increments ''vaas_finished_total'' (fst (metrics opts ctx next startTime endTime))
        = [spread (snd (getLabels (ctx_after (next ctx)) opts True))
             [(''terminal'', JStr (string_of_bool (reachedMaxAttempts (ctx_after (next ctx)))))]]"
    by (simp add: metrics_finished f ne)
  show "map (\<lambda>ls. get_prop ls ''terminal'')
            (increments ''vaas_finished_total'' (fst (metrics opts ctx next startTime endTime)))
          = [JStr (if reachedMaxAttempts (ctx_after (next ctx)) then ''true'' else ''false'')]"
    by (simp add: metrics_finished f ne get_prop_def map_of_spread_single string_of_bool_def)
next
  assume h: "raised (next ctx) = None"
  then have f: "failure (next ctx) = JNull" by (simp add: failure_def)
  show "increments ''vaas_finished_total'' (fst (metrics opts ctx next startTime endTime))
          = [snd (getLabels (ctx_after (next ctx)) opts False)]"
    by (simp add: metrics_finished f)
  assume "''terminal'' \<notin> set (allowedKeys opts)"
  then show "''terminal'' \<notin> keys (snd (getLabels (ctx_after (next ctx)) opts False))"
    by (auto simp: keys_conv_dom map_of_getLabels allowedKeys_def domIff
          split: option.splits customizer_result.splits if_splits)
next
  show "reachedMaxAttempts c =
        (case job (storage c) of
           None \<Rightarrow> False
         | Some j \<Rightarrow>
             (case (attempts j, maxAttempts j) of
                (Some a, Some m) \<Rightarrow> a = m
              | (None, Some m) \<Rightarrow> m = 0
              | (Some a, None) \<Rightarrow> a = - 1
              | (None, None) \<Rightarrow> False))"
    by (rule reachedMaxAttempts_cases)
qed

theorem finished_total_terminal_label_witness:
  "(raised \<lparr>effects = [], raised = Some (JError ''boom''),
             ctx_after = \<lparr>storage = \<lparr>job = Some \<lparr>attempts = Some 3, maxAttempts = Some 3\<rparr>\<rparr>,
                          logger = None\<rparr>\<rparr> = Some (JError ''boom'')
    \<and> truthy (JError ''boom''))
   \<and> increments ''vaas_finished_total''
        (fst (metrics \<lparr>registry = None, labels = None, processingTimeBuckets = None\<rparr>
           \<lparr>storage = \<lparr>job = Some \<lparr>attempts = Some 3, maxAttempts = Some 3\<rparr>\<rparr>, logger = None\<rparr>
           (\<lambda>c. \<lparr>effects = [], raised = Some (JError ''boom''), ctx_after = c\<rparr>) 0 7))
       = [[(''status'', JStr ''failed''), (''terminal'', JStr ''true'')]]
   \<and> increments ''vaas_finished_total''
        (fst (metrics \<lparr>registry = None, labels = None, processingTimeBuckets = None\<rparr>
           \<lparr>storage = \<lparr>job = Some \<lparr>attempts = Some 1, maxAttempts = Some 3\<rparr>\<rparr>, logger = None\<rparr>
           (\<lambda>c. \<lparr>effects = [], raised = Some (JError ''boom''), ctx_after = c\<rparr>) 0 7))
       = [[(''status'', JStr ''failed''), (''terminal'', JStr ''false'')]]
   \<and> raised \<lparr>effects = [], raised = None,
              ctx_after = \<lparr>storage = \<lparr>job = Some \<lparr>attempts = Some 1, maxAttempts = Some 3\<rparr>\<rparr>,
                           logger = None\<rparr>\<rparr> = None
   \<and> ''terminal'' \<notin> set (allowedKeys \<lparr>registry = None, labels = None, processingTimeBuckets = None\<rparr>)
   \<and> increments ''vaas_finished_total''
        (fst (metrics \<lparr>registry = None, labels = None, processingTimeBuckets = None\<rparr>
           \<lparr>storage = \<lparr>job = Some \<lparr>attempts = Some 1, maxAttempts = Some 3\<rparr>\<rparr>, logger = None\<rparr>
           (\<lambda>c. \<lparr>effects = [], raised = None, ctx_after = c\<rparr>) 0 7))
       = [[(''status'', JStr ''succeeded'')]]
   \<and> ''terminal'' \<notin> keys [(''status'', JStr ''succeeded'')]"
  using
    finished_total_terminal_label
      [of "\<lambda>c. \<lparr>effects = [], raised = Some (JError ''boom''), ctx_after = c\<rparr>"
          "\<lparr>storage = \<lparr>job = Some \<lparr>attempts = Some 3, maxAttempts = Some 3\<rparr>\<rparr>, logger = None\<rparr>"
          "JError ''boom''"
          "\<lparr>registry = None, labels = None, processingTimeBuckets = None\<rparr>" 0 7]
    finished_total_terminal_label
      [of "\<lambda>c. \<lparr>effects = [], raised = Some (JError ''boom''), ctx_after = c\<rparr>"
          "\<lparr>storage = \<lparr>job = Some \<lparr>attempts = Some 1, maxAttempts = Some 3\<rparr>\<rparr>, logger = None\<rparr>"
          "JError ''boom''"
          "\<lparr>registry = None, labels = None, processingTimeBuckets = None\<rparr>" 0 7]
    finished_total_terminal_label
      [of "\<lambda>c. \<lparr>effects = [], raised = None, ctx_after = c\<rparr>"
          "\<lparr>storage = \<lparr>job = Some \<lparr>attempts = Some 1, maxAttempts = Some 3\<rparr>\<rparr>, logger = None\<rparr>"
          _
          "\<lparr>registry = None, labels = None, processingTimeBuckets = None\<rparr>" 0 7]
  by (simp add: getLabels_def spread_def validatedLabels_def assign_prop_def
        Object_prototype_def defaultLabels_def
        reachedMaxAttempts_def string_of_bool_def allowedKeys_def keys_def)

section \<open>The computed labels\<close>

text \<open>
  C4. For every allow-list and every customizer result, the keys of the computed labels
  are among the allowed keys and \<open>status\<close>; \<open>status\<close> is always there and carries the
  engine's value, \<open>succeeded\<close> or \<open>failed\<close>, whatever the customizer supplied. These
  are the labels the histogram is observed with. With \<open>labelNames = ["a"]\<close> and a
  customizer returning \<open>{a: 1, b: 2}\<close> the labels are \<open>a\<close> and \<open>status\<close>; a
  \<open>status\<close> of the customizer is overwritten even when the allow-list names it.
\<close>

theorem getLabels_allow_list:
  "keys (snd (getLabels ctx opts failed)) \<subseteq> set (allowedKeys opts) \<union> {''status''}
   \<and> ''status'' \<in> keys (snd (getLabels ctx opts failed))
   \<and> get_prop (snd (getLabels ctx opts failed)) ''status''
       = JStr (if failed then ''failed'' else ''succeeded'')
   \<and> observations ''vaas_processing_duration'' (fst (metrics opts ctx next startTime endTime))
       = [(snd (getLabels (ctx_after (next ctx)) opts (failure (next ctx) \<noteq> JNull)),
           endTime - startTime)]
   \<and> snd (getLabels ctx
          \<lparr>registry = r,
           labels = Some \<lparr>labelNames = [''a''],
                          customizer = (\<lambda>c. Resolves [(''a'', JNum 1), (''b'', JNum 2)])\<rparr>,
           processingTimeBuckets = bs\<rparr> failed)
       = [(''a'', JNum 1), (''status'', JStr (if failed then ''failed'' else ''succeeded''))]
   \<and> snd (getLabels ctx
          \<lparr>registry = r,
           labels = Some \<lparr>labelNames = [''status'', ''a''],
                          customizer = (\<lambda>c. Resolves [(''a'', JNum 1), (''status'', JStr ''mine'')])\<rparr>,
           processingTimeBuckets = bs\<rparr> failed)
       = [(''status'', JStr (if failed then ''failed'' else ''succeeded'')), (''a'', JNum 1)]"
proof (intro conjI)
  show "keys (snd (getLabels ctx opts failed)) \<subseteq> set (allowedKeys opts) \<union> {''status''}"
    by (auto simp: keys_conv_dom map_of_getLabels allowedKeys_def domIff
          split: option.splits customizer_result.splits if_splits)
  show "''status'' \<in> keys (snd (getLabels ctx opts failed))"
    by (simp add: keys_conv_dom map_of_getLabels domIff)
  show "get_prop (snd (getLabels ctx opts failed)) ''status''
        = JStr (if failed then ''failed'' else ''succeeded'')"
    by (simp add: get_prop_def map_of_getLabels)
  show "observations ''vaas_processing_duration'' (fst (metrics opts ctx next startTime endTime))
       = [(snd (getLabels (ctx_after (next ctx)) opts (failure (next ctx) \<noteq> JNull)),
           endTime - startTime)]"
    by (rule metrics_observations)
qed (simp_all add: getLabels_def spread_def validatedLabels_def assign_prop_def
        Object_prototype_def defaultLabels_def get_prop_def)

text \<open>
  C9. When the customizer resolves, a property of its record is retained in the labels
  only if its value is truthy. The value is what \<open>labels[key]\<close> reads, own or inherited.
  A key other than \<open>status\<close> is a key of the labels exactly when it is allowed, the
  customizer's value for it is truthy and it is not \<open>__proto__\<close> (whose assignment
  stores nothing), and then it carries that value. \<open>0\<close>, the empty string, \<open>false\<close> and
  \<open>null\<close> are not truthy. The last two conjuncts are the empty record with the allowed
  keys \<open>constructor\<close> and \<open>__proto__\<close>: the inherited constructor is truthy and
  becomes a label.
\<close>

theorem allow_listed_falsy_dropped:
  assumes "labels opts = Some l"
    and "customizer l ctx = Resolves ls"
  shows "((k, get_prop ls k) \<in> set (snd (getLabels ctx opts failed)) \<longrightarrow> truthy (get_prop ls k))
         \<and> (k \<in> keys (snd (getLabels ctx opts failed)) \<and> k \<noteq> ''status'' \<longrightarrow>
              k \<in> set (labelNames l) \<and> truthy (get_prop ls k)
              \<and> get_prop (snd (getLabels ctx opts failed)) k = get_prop ls k)
         \<and> (k \<in> set (labelNames l) \<and> \<not> truthy (get_prop ls k) \<and> k \<noteq> ''status'' \<longrightarrow>
              k \<notin> keys (snd (getLabels ctx opts failed)))
         \<and> (k \<noteq> ''status'' \<longrightarrow>
              (k \<in> keys (snd (getLabels ctx opts failed))
                 \<longleftrightarrow> k \<in> set (labelNames l) \<and> truthy (get_prop ls k) \<and> k \<noteq> ''__proto__''))
         \<and> \<not> truthy (JNum 0) \<and> \<not> truthy (JStr []) \<and> \<not> truthy (JBool False)
         \<and> \<not> truthy JNull
         \<and> snd (getLabels ctx
              \<lparr>registry = r,
               labels = Some \<lparr>labelNames = [''constructor'', ''__proto__''],
                              customizer = (\<lambda>c. Resolves [])\<rparr>,
               processingTimeBuckets = bs\<rparr> False)
             = [(''constructor'', JBuiltin ''Object''), (''status'', JStr ''succeeded'')]
         \<and> snd (getLabels ctx
              \<lparr>registry = r,
               labels = Some \<lparr>labelNames = [''a''],
                              customizer = (\<lambda>c. Resolves [(''a'', JNum 0)])\<rparr>,
               processingTimeBuckets = bs\<rparr> False)
             = [(''status'', JStr ''succeeded'')]"
proof -
  have m: "map_of (snd (getLabels ctx opts failed)) k' =
     (if k' = ''status'' then Some (JStr (if failed then ''failed'' else ''succeeded''))
      else if k' \<in> set (labelNames l) \<and> truthy (get_prop ls k') \<and> k' \<noteq> ''__proto__''
      then Some (get_prop ls k')
      else None)" for k'
    by (simp add: map_of_getLabels assms)
  have own: "get_prop obj k' = v" if "map_of obj k' = Some v" for obj k' v
    using that by (simp add: get_prop_def)
  have 1: "truthy (get_prop ls k)"
    if "(k, get_prop ls k) \<in> set (snd (getLabels ctx opts failed))"
  proof -
    from that distinct_getLabels
    have "map_of (snd (getLabels ctx opts failed)) k = Some (get_prop ls k)"
      by simp
    then have "truthy (get_prop ls k) \<or> get_prop ls k = JStr ''failed''
        \<or> get_prop ls k = JStr ''succeeded''"
      by (auto simp: m split: if_splits)
    then show ?thesis by auto
  qed
  have 4: "k \<in> keys (snd (getLabels ctx opts failed))
          \<longleftrightarrow> k \<in> set (labelNames l) \<and> truthy (get_prop ls k) \<and> k \<noteq> ''__proto__''"
    if "k \<noteq> ''status''"
    using that by (simp add: keys_conv_dom domIff m)
  have 2: "k \<in> set (labelNames l) \<and> truthy (get_prop ls k)
           \<and> get_prop (snd (getLabels ctx opts failed)) k = get_prop ls k"
    if "k \<in> keys (snd (getLabels ctx opts failed)) \<and> k \<noteq> ''status''"
  proof -
    from that 4 have t: "k \<in> set (labelNames l)" "truthy (get_prop ls k)" "k \<noteq> ''__proto__''"
      by simp_all
    with that have "map_of (snd (getLabels ctx opts failed)) k = Some (get_prop ls k)"
      by (simp add: m)
    then have "get_prop (snd (getLabels ctx opts failed)) k = get_prop ls k"
      by (rule own)
    with t show ?thesis by simp
  qed
  have 3: "k \<notin> keys (snd (getLabels ctx opts failed))"
    if "k \<in> set (labelNames l) \<and> \<not> truthy (get_prop ls k) \<and> k \<noteq> ''status''"
    using that 4 by simp
  have 5: "snd (getLabels ctx
              \<lparr>registry = r,
               labels = Some \<lparr>labelNames = [''constructor'', ''__proto__''],
                              customizer = (\<lambda>c. Resolves [])\<rparr>,
               processingTimeBuckets = bs\<rparr> False)
             = [(''constructor'', JBuiltin ''Object''), (''status'', JStr ''succeeded'')]"
    by (simp add: getLabels_def spread_def validatedLabels_def assign_prop_def
          Object_prototype_def defaultLabels_def get_prop_def)
  have 6: "snd (getLabels ctx
              \<lparr>registry = r,
               labels = Some \<lparr>labelNames = [''a''],
                              customizer = (\<lambda>c. Resolves [(''a'', JNum 0)])\<rparr>,
               processingTimeBuckets = bs\<rparr> False)
             = [(''status'', JStr ''succeeded'')]"
    by (simp add: getLabels_def spread_def validatedLabels_def assign_prop_def
          Object_prototype_def defaultLabels_def get_prop_def)
  have 7: "\<not> truthy (JNum 0) \<and> \<not> truthy (JStr []) \<and> \<not> truthy (JBool False) \<and> \<not> truthy JNull"
    by simp
  from 1 2 3 4 5 6 7 show ?thesis by blast
qed

theorem allow_listed_falsy_dropped_witness:
  "labels \<lparr>registry = None,
           labels = Some \<lparr>labelNames = [''a'', ''z'', ''e'', ''f'', ''n''],
                          customizer = (\<lambda>c. Resolves [(''a'', JNum 1), (''z'', JNum 0),
                             (''e'', JStr []), (''f'', JBool False), (''n'', JNull)])\<rparr>,
           processingTimeBuckets = None\<rparr>
     = Some \<lparr>labelNames = [''a'', ''z'', ''e'', ''f'', ''n''],
             customizer = (\<lambda>c. Resolves [(''a'', JNum 1), (''z'', JNum 0),
                             (''e'', JStr []), (''f'', JBool False), (''n'', JNull)])\<rparr>
   \<and> customizer \<lparr>labelNames = [''a'', ''z'', ''e'', ''f'', ''n''],
                  customizer = (\<lambda>c. Resolves [(''a'', JNum 1), (''z'', JNum 0),
                             (''e'', JStr []), (''f'', JBool False), (''n'', JNull)])\<rparr>
        \<lparr>storage = \<lparr>job = None\<rparr>, logger = None\<rparr>
     = Resolves [(''a'', JNum 1), (''z'', JNum 0), (''e'', JStr []), (''f'', JBool False),
                 (''n'', JNull)]
   \<and> snd (getLabels \<lparr>storage = \<lparr>job = None\<rparr>, logger = None\<rparr>
        \<lparr>registry = None,
         labels = Some \<lparr>labelNames = [''a'', ''z'', ''e'', ''f'', ''n''],
                        customizer = (\<lambda>c. Resolves [(''a'', JNum 1), (''z'', JNum 0),
                           (''e'', JStr []), (''f'', JBool False), (''n'', JNull)])\<rparr>,
         processingTimeBuckets = None\<rparr> False)
     = [(''a'', JNum 1), (''status'', JStr ''succeeded'')]
   \<and> ''z'' \<noteq> ''status''
   \<and> ''z'' \<in> set [''a'', ''z'', ''e'', ''f'', ''n'']
   \<and> \<not> truthy (get_prop [(''a'', JNum 1), (''z'', JNum 0), (''e'', JStr []),
                            (''f'', JBool False), (''n'', JNull)] ''z'')
   \<and> ''z'' \<notin> keys [(''a'', JNum 1), (''status'', JStr ''succeeded'')]
   \<and> ''a'' \<noteq> ''status''
   \<and> truthy (get_prop [(''a'', JNum 1), (''z'', JNum 0), (''e'', JStr []),
                            (''f'', JBool False), (''n'', JNull)] ''a'')
   \<and> ''a'' \<in> set [''a'', ''z'', ''e'', ''f'', ''n'']
   \<and> ''a'' \<in> keys [(''a'', JNum 1), (''status'', JStr ''succeeded'')]
   \<and> (''a'', JNum 1) \<in> set [(''a'', JNum 1), (''status'', JStr ''succeeded'')]
   \<and> get_prop [(''a'', JNum 1), (''status'', JStr ''succeeded'')] ''a'' = JNum 1"
  using
    allow_listed_falsy_dropped
      [of "\<lparr>registry = None,
            labels = Some \<lparr>labelNames = [''a'', ''z'', ''e'', ''f'', ''n''],
                           customizer = (\<lambda>c. Resolves [(''a'', JNum 1), (''z'', JNum 0),
                              (''e'', JStr []), (''f'', JBool False), (''n'', JNull)])\<rparr>,
            processingTimeBuckets = None\<rparr>"
          "\<lparr>labelNames = [''a'', ''z'', ''e'', ''f'', ''n''],
            customizer = (\<lambda>c. Resolves [(''a'', JNum 1), (''z'', JNum 0),
                              (''e'', JStr []), (''f'', JBool False), (''n'', JNull)])\<rparr>"
          "\<lparr>storage = \<lparr>job = None\<rparr>, logger = None\<rparr>"
          "[(''a'', JNum 1), (''z'', JNum 0), (''e'', JStr []), (''f'', JBool False),
            (''n'', JNull)]"
          "''z''" False]
    allow_listed_falsy_dropped
      [of "\<lparr>registry = None,
            labels = Some \<lparr>labelNames = [''a'', ''z'', ''e'', ''f'', ''n''],
                           customizer = (\<lambda>c. Resolves [(''a'', JNum 1), (''z'', JNum 0),
                              (''e'', JStr []), (''f'', JBool False), (''n'', JNull)])\<rparr>,
            processingTimeBuckets = None\<rparr>"
          "\<lparr>labelNames = [''a'', ''z'', ''e'', ''f'', ''n''],
            customizer = (\<lambda>c. Resolves [(''a'', JNum 1), (''z'', JNum 0),
                              (''e'', JStr []), (''f'', JBool False), (''n'', JNull)])\<rparr>"
          "\<lparr>storage = \<lparr>job = None\<rparr>, logger = None\<rparr>"
          "[(''a'', JNum 1), (''z'', JNum 0), (''e'', JStr []), (''f'', JBool False),
            (''n'', JNull)]"
          "''a''" False]
  by (simp add: getLabels_def spread_def validatedLabels_def assign_prop_def
        Object_prototype_def
        defaultLabels_def get_prop_def keys_def)

text \<open>
  The error of the customizer is logged by \<open>ctx.logger?.error\<close>: on a context without
  a logger nothing is logged.
\<close>

theorem customizer_error_not_logged_without_logger:
  "logged
     (fst (metrics
        \<lparr>registry = None,
         labels = Some \<lparr>labelNames = [''a''], customizer = (\<lambda>c. Rejects (JError ''bad''))\<rparr>,
         processingTimeBuckets = None\<rparr>
        \<lparr>storage = \<lparr>job = None\<rparr>, logger = None\<rparr>
        (\<lambda>c. \<lparr>effects = [], raised = None, ctx_after = c\<rparr>) 0 7))
   = []"
  by (simp add: metrics_logged getLabels_def)

text \<open>
  C3, as the code has it. If the customizer raises or rejects, the handler behaves as if
  it were configured without labels: same outcome, same observation of the histogram,
  same increments of both counters, the observation labelled with \<open>status\<close> only. The
  error goes to the logger of the context when there is one, and nowhere when there is
  none.
\<close>

theorem customizer_failure_contained:
  assumes "labels opts = Some l"
    and "customizer l (ctx_after (next ctx)) = Rejects err"
  shows "snd (metrics opts ctx next startTime endTime)
           = snd (metrics (opts\<lparr>labels := None\<rparr>) ctx next startTime endTime)
         \<and> observations ''vaas_processing_duration'' (fst (metrics opts ctx next startTime endTime))
           = observations ''vaas_processing_duration''
               (fst (metrics (opts\<lparr>labels := None\<rparr>) ctx next startTime endTime))
         \<and> increments ''vaas_finished_total'' (fst (metrics opts ctx next startTime endTime))
           = increments ''vaas_finished_total''
               (fst (metrics (opts\<lparr>labels := None\<rparr>) ctx next startTime endTime))
         \<and> increments ''vaas_processed_total'' (fst (metrics opts ctx next startTime endTime))
           = increments ''vaas_processed_total''
               (fst (metrics (opts\<lparr>labels := None\<rparr>) ctx next startTime endTime))
         \<and> map (map fst \<circ> fst)
             (observations ''vaas_processing_duration'' (fst (metrics opts ctx next startTime endTime)))
           = [[''status'']]
         \<and> map (map fst)
             (increments ''vaas_finished_total'' (fst (metrics opts ctx next startTime endTime)))
           = [if truthy (failure (next ctx)) then [''status'', ''terminal''] else [''status'']]
         \<and> logged (fst (metrics opts ctx next startTime endTime))
           = (case logger (ctx_after (next ctx)) of None \<Rightarrow> [] | Some lg \<Rightarrow> [err])"
proof -
  have a: "snd (getLabels (ctx_after (next ctx)) opts b) = defaultLabels b" for b
    by (simp add: getLabels_Rejects [OF assms])
  have b: "snd (getLabels (ctx_after (next ctx)) (opts\<lparr>labels := None\<rparr>) b) = defaultLabels b" for b
    by (simp add: getLabels_no_labels)
  have c: "logged (fst (getLabels (ctx_after (next ctx)) opts b))
           = (case logger (ctx_after (next ctx)) of None \<Rightarrow> [] | Some lg \<Rightarrow> [err])" for b
    by (simp add: getLabels_Rejects [OF assms] split: option.splits)
  have d: "map fst (spread (defaultLabels b) [(''terminal'', v)]) = [''status'', ''terminal'']"
    for b v
    by (simp add: spread_def defaultLabels_def)
  show ?thesis
    by (simp add: metrics_outcome metrics_observations metrics_finished metrics_logged a b c d
          processed_increments)
       (simp add: defaultLabels_def)
qed

theorem customizer_failure_contained_witness:
  "labels \<lparr>registry = None,
           labels = Some \<lparr>labelNames = [''a''], customizer = (\<lambda>c. Rejects (JError ''bad''))\<rparr>,
           processingTimeBuckets = None\<rparr>
     = Some \<lparr>labelNames = [''a''], customizer = (\<lambda>c. Rejects (JError ''bad''))\<rparr>
   \<and> customizer \<lparr>labelNames = [''a''], customizer = (\<lambda>c. Rejects (JError ''bad''))\<rparr>
        \<lparr>storage = \<lparr>job = None\<rparr>, logger = Some ''winston''\<rparr> = Rejects (JError ''bad'')
   \<and> metrics
        \<lparr>registry = None,
         labels = Some \<lparr>labelNames = [''a''], customizer = (\<lambda>c. Rejects (JError ''bad''))\<rparr>,
         processingTimeBuckets = None\<rparr>
        \<lparr>storage = \<lparr>job = None\<rparr>, logger = Some ''winston''\<rparr>
        (\<lambda>c. \<lparr>effects = [], raised = Some (JError ''boom''), ctx_after = c\<rparr>) 0 7
     = ([Inc ''vaas_processed_total'' [], NextInvoked, NextSettled, CustomizerInvoked,
         LogError ''winston'' ''Failed to customize metric labels, please review'' (JError ''bad''),
         Observe ''vaas_processing_duration'' [(''status'', JStr ''failed'')] 7,
         Inc ''vaas_finished_total''
           [(''status'', JStr ''failed''), (''terminal'', JStr ''false'')]],
        Inl (JError ''boom''))
   \<and> snd (metrics \<lparr>registry = None, labels = None, processingTimeBuckets = None\<rparr>
        \<lparr>storage = \<lparr>job = None\<rparr>, logger = Some ''winston''\<rparr>
        (\<lambda>c. \<lparr>effects = [], raised = Some (JError ''boom''), ctx_after = c\<rparr>) 0 7)
     = Inl (JError ''boom'')"
  using
    customizer_failure_contained
      [of "\<lparr>registry = None,
            labels = Some \<lparr>labelNames = [''a''], customizer = (\<lambda>c. Rejects (JError ''bad''))\<rparr>,
            processingTimeBuckets = None\<rparr>"
          "\<lparr>labelNames = [''a''], customizer = (\<lambda>c. Rejects (JError ''bad''))\<rparr>"
          "\<lambda>c. \<lparr>effects = [], raised = Some (JError ''boom''), ctx_after = c\<rparr>"
          "\<lparr>storage = \<lparr>job = None\<rparr>, logger = Some ''winston''\<rparr>"
          "JError ''bad''" 0 7]
  by (simp add: metrics_def failure_def getLabels_def spread_def validatedLabels_def assign_prop_def
        Object_prototype_def
        defaultLabels_def processedVaasTotal_def processingDuration_def finishedVaasTotal_def
        reachedMaxAttempts_def string_of_bool_def)

section \<open>The action executor\<close>

text \<open>
  C7. When no toolbox resolves for the chain id of the action, \<open>execute\<close> fails with a
  resolution error, which is none of the errors of the action's function, and the
  function is never invoked.
\<close>

theorem execute_unresolvable_chain:
  assumes "resolve (chainId action) = None"
  shows "execute resolve action = ([], Inl (ResolutionError (chainId action)))
         \<and> (\<forall>e. snd (execute resolve action) \<noteq> Inl (ActionError e))"
  using assms by (simp add: execute_def)

theorem execute_unresolvable_chain_witness:
  "(\<lambda>c. if c = 2 then Some ''evm'' else None)
      (chainId \<lparr>chainId = 5, f = (\<lambda>tb c. Inr (tb, c) :: string + string \<times> nat)\<rparr>) = None
   \<and> execute (\<lambda>c. if c = 2 then Some ''evm'' else None)
        \<lparr>chainId = 5, f = (\<lambda>tb c. Inr (tb, c) :: string + string \<times> nat)\<rparr>
     = ([], Inl (ResolutionError 5))"
  using
    execute_unresolvable_chain
      [of "\<lambda>c. if c = 2 then Some ''evm'' else None"
          "\<lparr>chainId = 5, f = (\<lambda>tb c. Inr (tb, c) :: string + string \<times> nat)\<rparr>"]
  by simp

text \<open>
  C8. When a toolbox resolves, \<open>execute\<close> invokes the action's function exactly once,
  on that toolbox and the action's chain id, and returns exactly its value or fails with
  exactly its error.
\<close>

theorem execute_returns_action_result:
  assumes "resolve (chainId action) = Some toolBox"
  shows "fst (execute resolve action) = [(toolBox, chainId action)]
         \<and> (f action toolBox (chainId action) = Inr v \<longrightarrow> snd (execute resolve action) = Inr v)
         \<and> (f action toolBox (chainId action) = Inl e \<longrightarrow>
              snd (execute resolve action) = Inl (ActionError e))"
  using assms by (simp add: execute_def)

theorem execute_returns_action_result_witness:
  "(\<lambda>c. if c = 2 then Some ''evm'' else None)
      (chainId \<lparr>chainId = 2, f = (\<lambda>tb c. Inr (tb, c) :: string + string \<times> nat)\<rparr>) = Some ''evm''
   \<and> f \<lparr>chainId = 2, f = (\<lambda>tb c. Inr (tb, c) :: string + string \<times> nat)\<rparr> ''evm'' 2
       = Inr (''evm'', 2)
   \<and> execute (\<lambda>c. if c = 2 then Some ''evm'' else None)
        \<lparr>chainId = 2, f = (\<lambda>tb c. Inr (tb, c) :: string + string \<times> nat)\<rparr>
     = ([(''evm'', 2)], Inr (''evm'', 2))
   \<and> f \<lparr>chainId = 2, f = (\<lambda>tb c. Inl ''reverted'' :: string + string \<times> nat)\<rparr> ''evm'' 2
       = Inl ''reverted''
   \<and> execute (\<lambda>c. if c = 2 then Some ''evm'' else None)
        \<lparr>chainId = 2, f = (\<lambda>tb c. Inl ''reverted'' :: string + string \<times> nat)\<rparr>
     = ([(''evm'', 2)], Inl (ActionError ''reverted''))"
  using
    execute_returns_action_result
      [of "\<lambda>c. if c = 2 then Some ''evm'' else None"
          "\<lparr>chainId = 2, f = (\<lambda>tb c. Inr (tb, c) :: string + string \<times> nat)\<rparr>"
          "''evm''" "(''evm'', 2)"]
    execute_returns_action_result
      [of "\<lambda>c. if c = 2 then Some ''evm'' else None"
          "\<lparr>chainId = 2, f = (\<lambda>tb c. Inl ''reverted'' :: string + string \<times> nat)\<rparr>"
          "''evm''" _ "''reverted''"]
  by (simp_all add: execute_def prod_eq_iff)

end
